theory Spec2Isabelle
  imports Complex_Main
begin

section \<open>JavaScript values used by the service\<close>

text \<open>
  The service (\<^verbatim>\<open>src/services/geminiService.ts\<close>) is two asynchronous functions,
  \<^verbatim>\<open>findToilets\<close> and \<^verbatim>\<open>reverseGeocode\<close>. Each builds a URL, awaits \<^verbatim>\<open>fetch\<close>,
  awaits \<^verbatim>\<open>response.json()\<close> and then transforms the parsed value. The transformation
  is pure; what the network does is the input. The model therefore takes the outcome of
  the awaited \<^verbatim>\<open>fetch\<close> as its argument and returns either the thrown error (\<open>Inl\<close>)
  or the returned value (\<open>Inr\<close>).

  Strings are lists of code units below 256 (the Latin-1 range of a JavaScript string).
\<close>

subsection \<open>Strings\<close>

text \<open>
  \<^verbatim>\<open>String.prototype.toLowerCase\<close> on the Latin-1 range: the letters A-Z (65-90) and
  the letters U+00C0-U+00DE except the multiplication sign U+00D7 move up by 32; every
  other code unit is unchanged.
\<close>

definition toLowerCase_char :: "char \<Rightarrow> char" where
  "toLowerCase_char c =
     (let n = (of_char c :: nat)
      in if (65 \<le> n \<and> n \<le> 90) \<or> (192 \<le> n \<and> n \<le> 222 \<and> n \<noteq> 215)
         then char_of (n + 32) else c)"

definition toLowerCase :: "string \<Rightarrow> string" where
  "toLowerCase s = map toLowerCase_char s"

text \<open>\<^verbatim>\<open>Array.prototype.join\<close> on an array of strings.\<close>

fun join :: "string \<Rightarrow> string list \<Rightarrow> string" where
  "join sep [] = []"
| "join sep [x] = x"
| "join sep (x # y # ys) = x @ sep @ join sep (y # ys)"

text \<open>
  The decimal form of an integer, as \<^verbatim>\<open>Number.prototype.toString\<close> and template
  literals print an integral number (exact for the identifiers and status codes the
  service handles, all far below \<open>10^21\<close>).
\<close>

definition digit_char :: "nat \<Rightarrow> char" where
  "digit_char d = char_of (48 + d)"

fun digits :: "nat \<Rightarrow> string" where
  "digits n = (if n < 10 then [digit_char n] else digits (n div 10) @ [digit_char (n mod 10)])"

declare digits.simps [simp del]

definition toString :: "int \<Rightarrow> string" where
  "toString i = (if i < 0 then CHR ''-'' # digits (nat (- i)) else digits (nat i))"

subsection \<open>Truthiness\<close>

text \<open>
  The code tests optional strings by truthiness (\<^verbatim>\<open>if (x)\<close>, \<^verbatim>\<open>x ? a : b\<close>,
  \<^verbatim>\<open>.filter(Boolean)\<close>): \<^verbatim>\<open>undefined\<close> and the empty string are falsy, every other
  string is truthy. An absent property is \<open>None\<close>; \<open>if_truthy v\<close> is the string
  of a truthy \<open>v\<close>.
\<close>

definition if_truthy :: "string option \<Rightarrow> string option" where
  "if_truthy v = (case v of None \<Rightarrow> None | Some s \<Rightarrow> if s \<noteq> [] then Some s else None)"

definition truthy :: "string option \<Rightarrow> bool" where
  "truthy v = (if_truthy v \<noteq> None)"

text \<open>
  \<^verbatim>\<open>a || b\<close> on numbers, where \<^verbatim>\<open>a\<close> may be \<^verbatim>\<open>undefined\<close>: \<^verbatim>\<open>undefined\<close> and zero
  are falsy. Coordinates are only ever tested and copied, never computed with, so they
  are modelled as real numbers.
\<close>

definition or_number :: "real option \<Rightarrow> real \<Rightarrow> real" where
  "or_number a b = (case a of None \<Rightarrow> b | Some x \<Rightarrow> if x \<noteq> 0 then x else b)"

subsection \<open>Errors, responses and parsed bodies\<close>

datatype js_error =
    Error string
  | TypeError string
  | SyntaxError string

text \<open>
  The value \<^verbatim>\<open>response.json()\<close> resolves to, as far as the service looks at it:
  \<^verbatim>\<open>null\<close>; an object, with the properties the service reads; or any other JSON value
  (a boolean, number, string or array), on which each of those properties reads
  \<^verbatim>\<open>undefined\<close>.
\<close>

datatype 'a json = JNull | JOther | JObject 'a

text \<open>\<^verbatim>\<open>response.json()\<close> rejects with a SyntaxError when the body is not JSON.\<close>

datatype 'a body = Unparseable string | Parsed "'a json"

record 'a response =
  status :: nat
  body :: "'a body"

text \<open>\<^verbatim>\<open>response.ok\<close>: the status is in the range 200-299.\<close>

definition ok :: "'a response \<Rightarrow> bool" where
  "ok r = (200 \<le> status r \<and> status r \<le> 299)"

text \<open>The awaited \<^verbatim>\<open>fetch\<close> either rejects (a transport failure) or resolves.\<close>

datatype 'a fetch_outcome = Rejected js_error | Resolved "'a response"

text \<open>
  Reading a property of the parsed value: \<^verbatim>\<open>data.p\<close> throws a TypeError on \<^verbatim>\<open>null\<close>.
\<close>

definition get_property :: "('a \<Rightarrow> 'b option) \<Rightarrow> 'a json \<Rightarrow> js_error + 'b option" where
  "get_property p data =
     (case data of
        JNull \<Rightarrow> Inl (TypeError ''Cannot read properties of null'')
      | JOther \<Rightarrow> Inr None
      | JObject obj \<Rightarrow> Inr (p obj))"

text \<open>
  \<^verbatim>\<open>data && data.p\<close>: \<^verbatim>\<open>null\<close> is falsy and the property is never read; the result
  is only ever tested for truthiness.
\<close>

definition and_property :: "('a \<Rightarrow> 'b option) \<Rightarrow> 'a json \<Rightarrow> 'b option" where
  "and_property p data =
     (case data of JNull \<Rightarrow> None | JOther \<Rightarrow> None | JObject obj \<Rightarrow> p obj)"

section \<open>The data model\<close>

datatype element_type = Node | Way | Relation

record center =
  center_lat :: real
  center_lon :: real

text \<open>
  \<^verbatim>\<open>interface OverpassElement\<close>. The tags are an object read by string keys
  (\<^verbatim>\<open>name\<close>, \<^verbatim>\<open>addr:street\<close>, ...), each value an optional string.
\<close>

type_synonym tags = "string \<rightharpoonup> string"

record overpass_element =
  el_id :: int
  el_type :: element_type
  el_lat :: real
  el_lon :: real
  el_center :: "center option"
  el_tags :: "tags option"
  el_nodes :: "int list option"

text \<open>\<^verbatim>\<open>interface Location\<close> and \<^verbatim>\<open>interface Toilet\<close> of \<^verbatim>\<open>types.ts\<close>.\<close>

record location =
  lat :: real
  lng :: real

record toilet =
  id_str :: string
  name :: string
  location :: location
  address :: "string option"
  fee :: "bool option"
  wheelchair :: "bool option"
  diaper :: "bool option"
  housedIn :: "string option"

text \<open>The parsed Overpass reply: \<^verbatim>\<open>data.elements\<close>.\<close>

record overpass_data =
  data_elements :: "overpass_element list option"

text \<open>
  The parsed Nominatim reply: \<^verbatim>\<open>data.address\<close> (an object read by the keys
  \<^verbatim>\<open>house_number\<close>, \<^verbatim>\<open>road\<close>, \<^verbatim>\<open>suburb\<close>, \<^verbatim>\<open>city\<close>, \<^verbatim>\<open>postcode\<close>),
  \<^verbatim>\<open>data.display_name\<close> and \<^verbatim>\<open>data.error\<close>.
\<close>

record nominatim_data =
  data_address :: "(string \<rightharpoonup> string) option"
  data_display_name :: "string option"
  data_error :: "string option"

section \<open>findToilets\<close>

text \<open>\<^verbatim>\<open>element.tags?.[key]\<close>: \<^verbatim>\<open>undefined\<close> when the element has no tags.\<close>

definition tag :: "overpass_element \<Rightarrow> string \<Rightarrow> string option" where
  "tag e key = (case el_tags e of None \<Rightarrow> None | Some t \<Rightarrow> t key)"

text \<open>
  Lines 64-72. \<^verbatim>\<open>parentNameMap\<close> is a \<^verbatim>\<open>Map<number, string>\<close>; the inner loop stores a
  node id only when the map does not have it yet.
\<close>

definition set_if_absent :: "string \<Rightarrow> (int \<rightharpoonup> string) \<Rightarrow> int \<Rightarrow> (int \<rightharpoonup> string)" where
  "set_if_absent way_name m nodeId = (if m nodeId = None then m(nodeId \<mapsto> way_name) else m)"

definition is_named_way :: "overpass_element \<Rightarrow> bool" where
  "is_named_way e = (el_type e = Way \<and> truthy (tag e ''name'') \<and> el_nodes e \<noteq> None)"

text \<open>
  One round of the outer loop. The loop runs over the filtered \<^verbatim>\<open>ways\<close>, where the
  non-null assertions \<^verbatim>\<open>way.nodes!\<close> and \<^verbatim>\<open>way.tags!.name!\<close> hold; the \<open>None\<close>
  branches are never reached from \<open>parentNameMap\<close>.
\<close>

definition add_way :: "(int \<rightharpoonup> string) \<Rightarrow> overpass_element \<Rightarrow> (int \<rightharpoonup> string)" where
  "add_way m way =
     (case (tag way ''name'', el_nodes way) of
        (Some way_name, Some ns) \<Rightarrow> foldl (set_if_absent way_name) m ns
      | _ \<Rightarrow> m)"

definition parentNameMap :: "overpass_element list \<Rightarrow> (int \<rightharpoonup> string)" where
  "parentNameMap elements = foldl add_way Map.empty (filter is_named_way elements)"

text \<open>Lines 74-76: the filter that selects the toilet elements.\<close>

definition isToiletElement :: "overpass_element \<Rightarrow> bool" where
  "isToiletElement e =
     (tag e ''amenity'' = Some ''toilets''
      \<or> (tag e ''railway'' = Some ''station'' \<and> tag e ''toilets'' = Some ''yes''))"

text \<open>Lines 78-115: the callback of \<^verbatim>\<open>toiletElements.map\<close>.\<close>

definition addressParts :: "overpass_element \<Rightarrow> string list" where
  "addressParts element =
     List.map_filter if_truthy
       [tag element ''addr:street'', tag element ''addr:housenumber'',
        tag element ''addr:postcode'', tag element ''addr:city'']"

definition displayName :: "overpass_element \<Rightarrow> string" where
  "displayName element =
     (if tag element ''railway'' = Some ''station'' then
        (case if_truthy (tag element ''name'') of
           Some n \<Rightarrow> n @ '' station toilet''
         | None \<Rightarrow> ''station toilet'')
      else
        (case if_truthy (tag element ''name'') of
           Some n \<Rightarrow> n
         | None \<Rightarrow> ''public toilet''))"

definition toToilet :: "(int \<rightharpoonup> string) \<Rightarrow> overpass_element \<Rightarrow> toilet" where
  "toToilet parentNames element =
     (let loc = \<lparr> lat = or_number (map_option center_lat (el_center element)) (el_lat element),
                  lng = or_number (map_option center_lon (el_center element)) (el_lon element) \<rparr>;
          parts = addressParts element;
          name0 = displayName element;
          housedIn0 = (if el_type element = Node \<and> parentNames (el_id element) \<noteq> None
                       then parentNames (el_id element) else None);
          address0 = (if length parts > 0 then join '', '' parts else ''address not available'')
      in \<lparr> id_str = toString (el_id element),
           name = toLowerCase name0,
           location = loc,
           address = Some (toLowerCase address0),
           fee = Some (tag element ''fee'' = Some ''no'' \<or> tag element ''fee'' = Some ''0''),
           wheelchair = Some (tag element ''wheelchair'' = Some ''yes''),
           diaper = Some (tag element ''diaper'' = Some ''yes''),
           housedIn = map_option toLowerCase housedIn0 \<rparr>)"

text \<open>
  The body of the \<^verbatim>\<open>try\<close> block, lines 55-117. A rejected \<^verbatim>\<open>fetch\<close> and a rejected
  \<^verbatim>\<open>response.json()\<close> throw what they were rejected with; a response that is not ok
  throws an Error carrying the status.
\<close>

definition findToilets_try :: "overpass_data fetch_outcome \<Rightarrow> js_error + toilet list" where
  "findToilets_try upstream =
     (case upstream of
        Rejected e \<Rightarrow> Inl e
      | Resolved response \<Rightarrow>
          if \<not> ok response then
            Inl (Error (''overpass api failed with status: '' @ toString (int (status response))))
          else
            (case body response of
               Unparseable msg \<Rightarrow> Inl (SyntaxError msg)
             | Parsed data \<Rightarrow>
                 (case and_property data_elements data of
                    Some elements \<Rightarrow>
                      Inr (map (toToilet (parentNameMap elements))
                             (filter isToiletElement elements))
                  | None \<Rightarrow> Inr [])))"

text \<open>
  Lines 119-122: the \<^verbatim>\<open>catch\<close> block logs the error and throws a new Error with a
  fixed message.
\<close>

definition findToilets :: "overpass_data fetch_outcome \<Rightarrow> js_error + toilet list" where
  "findToilets upstream =
     (case findToilets_try upstream of
        Inl e \<Rightarrow> Inl (Error ''failed to find nearby toilets from openstreetmap.'')
      | Inr toilets \<Rightarrow> Inr toilets)"

section \<open>reverseGeocode\<close>

text \<open>Lines 143-145, 154-155: \<^verbatim>\<open>if (v) parts.push(v)\<close>.\<close>

definition push_if_truthy :: "string option \<Rightarrow> string list \<Rightarrow> string list" where
  "push_if_truthy v parts =
     (case if_truthy v of None \<Rightarrow> parts | Some s \<Rightarrow> parts @ [s])"

text \<open>Line 147: \<^verbatim>\<open>adr.city && adr.city.toLowerCase() === 'singapore'\<close>.\<close>

definition city_is_singapore :: "(string \<rightharpoonup> string) \<Rightarrow> bool" where
  "city_is_singapore adr =
     (case if_truthy (adr ''city'') of
        None \<Rightarrow> False
      | Some c \<Rightarrow> toLowerCase c = ''singapore'')"

text \<open>Lines 142-156: the pushes onto \<^verbatim>\<open>parts\<close>, in order.\<close>

definition collect_parts :: "(string \<rightharpoonup> string) \<Rightarrow> string list" where
  "collect_parts adr =
     (let parts = [];
          parts = push_if_truthy (adr ''house_number'') parts;
          parts = push_if_truthy (adr ''road'') parts;
          parts = push_if_truthy (adr ''suburb'') parts
      in if city_is_singapore adr then
           (case if_truthy (adr ''postcode'') of
              Some p \<Rightarrow> parts @ [''singapore '' @ p]
            | None \<Rightarrow> parts @ [''singapore''])
         else
           push_if_truthy (adr ''postcode'') (push_if_truthy (adr ''city'') parts))"

text \<open>
  Line 158: \<^verbatim>\<open>[...new Set(parts)]\<close>. A Set keeps insertion order and ignores a value
  it already holds.
\<close>

definition set_add :: "string list \<Rightarrow> string \<Rightarrow> string list" where
  "set_add s x = (if x \<in> set s then s else s @ [x])"

definition unique_parts :: "string list \<Rightarrow> string list" where
  "unique_parts parts = foldl set_add [] parts"

text \<open>
  Lines 140-163: the structured-address block; \<open>None\<close> when control falls through it.
\<close>

definition structured_address :: "nominatim_data json \<Rightarrow> string option" where
  "structured_address data =
     (case and_property data_address data of
        None \<Rightarrow> None
      | Some adr \<Rightarrow>
          (let uniqueAddressParts = unique_parts (collect_parts adr)
           in if length uniqueAddressParts > 0
              then Some (toLowerCase (join '', '' uniqueAddressParts))
              else None))"

text \<open>Lines 165-174, after the structured-address block.\<close>

definition fallbacks :: "nominatim_data json \<Rightarrow> js_error + string" where
  "fallbacks data =
     (case get_property data_display_name data of
        Inl e \<Rightarrow> Inl e
      | Inr display_name \<Rightarrow>
          (case if_truthy display_name of
             Some d \<Rightarrow> Inr (toLowerCase d)
           | None \<Rightarrow>
               (case get_property data_error data of
                  Inl e \<Rightarrow> Inl e
                | Inr err \<Rightarrow>
                    (case if_truthy err of
                       Some m \<Rightarrow> Inr (toLowerCase (''location lookup failed: '' @ m))
                     | None \<Rightarrow> Inr ''could not determine address''))))"

text \<open>The body of the \<^verbatim>\<open>try\<close> block, lines 128-174.\<close>

definition reverseGeocode_try :: "nominatim_data fetch_outcome \<Rightarrow> js_error + string" where
  "reverseGeocode_try upstream =
     (case upstream of
        Rejected e \<Rightarrow> Inl e
      | Resolved response \<Rightarrow>
          if \<not> ok response then
            Inl (Error (''nominatim api failed with status: '' @ toString (int (status response))))
          else
            (case body response of
               Unparseable msg \<Rightarrow> Inl (SyntaxError msg)
             | Parsed data \<Rightarrow>
                 (case structured_address data of
                    Some s \<Rightarrow> Inr s
                  | None \<Rightarrow> fallbacks data)))"

text \<open>
  Lines 176-179: the \<^verbatim>\<open>catch\<close> block logs the error and returns a fixed string.
\<close>

definition reverseGeocode :: "nominatim_data fetch_outcome \<Rightarrow> js_error + string" where
  "reverseGeocode upstream =
     (case reverseGeocode_try upstream of
        Inl e \<Rightarrow> Inr ''unknown location (network error)''
      | Inr s \<Rightarrow> Inr s)"

section \<open>Evaluation and basic facts\<close>

text \<open>
  The equations that evaluate the string functions on literals. \<open>digits.simps\<close> is
  an unconditional recursion, so these are only for closed terms.
\<close>

lemmas string_eval =
  toLowerCase_def toLowerCase_char_def char_of_def bit_Suc_0_iff
  toString_def digits.simps digit_char_def

lemmas truthy_eval = truthy_def if_truthy_def

lemmas findToilets_eval =
  findToilets_def findToilets_try_def ok_def and_property_def
  parentNameMap_def is_named_way_def add_way_def set_if_absent_def
  isToiletElement_def tag_def toToilet_def addressParts_def displayName_def
  or_number_def List.map_filter_def truthy_eval

lemma if_truthy_Some: "if_truthy v = Some s \<longleftrightarrow> v = Some s \<and> s \<noteq> []"
  by (auto simp: if_truthy_def split: option.splits)

lemma if_truthy_None: "if_truthy v = None \<longleftrightarrow> v = None \<or> v = Some []"
  by (auto simp: if_truthy_def split: option.splits)

lemma truthy_the: "truthy v \<Longrightarrow> if_truthy v = Some (the v)"
  by (auto simp: truthy_def if_truthy_def split: option.splits if_splits)

lemma not_truthy: "\<not> truthy v \<Longrightarrow> if_truthy v = None"
  by (simp add: truthy_def)

subsection \<open>The successful path of findToilets\<close>

lemma findToilets_elements:
  assumes "ok r" and "body r = Parsed (JObject d)" and "data_elements d = Some es"
  shows "findToilets (Resolved r)
         = Inr (map (toToilet (parentNameMap es)) (filter isToiletElement es))"
  using assms by (simp add: findToilets_def findToilets_try_def and_property_def)

lemma id_str_toToilet: "id_str (toToilet pm e) = toString (el_id e)"
  by (simp add: toToilet_def Let_def)

lemma name_toToilet: "name (toToilet pm e) = toLowerCase (displayName e)"
  by (simp add: toToilet_def Let_def)

lemma location_toToilet:
  "location (toToilet pm e)
   = \<lparr> lat = or_number (map_option center_lat (el_center e)) (el_lat e),
       lng = or_number (map_option center_lon (el_center e)) (el_lon e) \<rparr>"
  by (simp add: toToilet_def Let_def)

lemma address_toToilet:
  "address (toToilet pm e)
   = Some (toLowerCase (if addressParts e = [] then ''address not available''
                        else join '', '' (addressParts e)))"
  by (simp add: toToilet_def Let_def)

lemma flags_toToilet:
  "fee (toToilet pm e) = Some (tag e ''fee'' = Some ''no'' \<or> tag e ''fee'' = Some ''0'')"
  "wheelchair (toToilet pm e) = Some (tag e ''wheelchair'' = Some ''yes'')"
  "diaper (toToilet pm e) = Some (tag e ''diaper'' = Some ''yes'')"
  by (simp_all add: toToilet_def Let_def)

lemma housedIn_toToilet:
  "housedIn (toToilet pm e)
   = (if el_type e = Node then map_option toLowerCase (pm (el_id e)) else None)"
  by (simp add: toToilet_def Let_def)

section \<open>Selection and order of the discovered toilets\<close>

text \<open>
  Claim C1. When the Overpass reply carries an element list, \<^verbatim>\<open>findToilets\<close> returns
  normally, and its result is the list of records of exactly the elements tagged
  \<^verbatim>\<open>amenity=toilets\<close>, or \<^verbatim>\<open>railway=station\<close> and \<^verbatim>\<open>toilets=yes\<close>, one record per
  element, in the order of the reply: the identifiers of the records are the identifiers
  of the selected elements, in that order. Every other element of the reply (the ways
  fetched to resolve containment among them) is dropped, and the call does not fail.
\<close>

theorem findToilets_selects_in_order:
  assumes "ok r" and "body r = Parsed (JObject d)" and "data_elements d = Some es"
  shows "findToilets (Resolved r)
           = Inr (map (toToilet (parentNameMap es))
                    [e \<leftarrow> es. tag e ''amenity'' = Some ''toilets''
                              \<or> (tag e ''railway'' = Some ''station''
                                  \<and> tag e ''toilets'' = Some ''yes'')])
         \<and> (\<exists>ts. findToilets (Resolved r) = Inr ts
                \<and> map id_str ts
                    = map (\<lambda>e. toString (el_id e))
                        [e \<leftarrow> es. tag e ''amenity'' = Some ''toilets''
                                  \<or> (tag e ''railway'' = Some ''station''
                                      \<and> tag e ''toilets'' = Some ''yes'')])"
proof -
  have sel: "isToiletElement
             = (\<lambda>e. tag e ''amenity'' = Some ''toilets''
                     \<or> (tag e ''railway'' = Some ''station'' \<and> tag e ''toilets'' = Some ''yes''))"
    by (rule ext) (simp add: isToiletElement_def)
  have run: "findToilets (Resolved r)
             = Inr (map (toToilet (parentNameMap es)) (filter isToiletElement es))"
    using assms by (rule findToilets_elements)
  show ?thesis
    unfolding run sel by (simp add: id_str_toToilet comp_def)
qed

text \<open>
  An Overpass reply with a named way, a toilet node inside it, an untagged node and a
  station relation: the way and the untagged node are dropped, the two toilets come
  back in the order of the reply.
\<close>

theorem findToilets_selects_in_order_witness:
  "findToilets (Resolved
      \<lparr> status = 200, body = Parsed (JObject \<lparr> data_elements = Some
          [ \<lparr> el_id = 10, el_type = Way, el_lat = 0, el_lon = 0,
              el_center = Some \<lparr> center_lat = 1.3, center_lon = 103.8 \<rparr>,
              el_tags = Some [''name'' \<mapsto> ''City Mall'', ''building'' \<mapsto> ''retail''],
              el_nodes = Some [7, 8] \<rparr>,
            \<lparr> el_id = 7, el_type = Node, el_lat = 1.31, el_lon = 103.81,
              el_center = None,
              el_tags = Some [''amenity'' \<mapsto> ''toilets''],
              el_nodes = None \<rparr>,
            \<lparr> el_id = 8, el_type = Node, el_lat = 1.32, el_lon = 103.82,
              el_center = None, el_tags = None, el_nodes = None \<rparr>,
            \<lparr> el_id = 42, el_type = Relation, el_lat = 0, el_lon = 0,
              el_center = Some \<lparr> center_lat = 1.33, center_lon = 103.83 \<rparr>,
              el_tags = Some [''railway'' \<mapsto> ''station'', ''toilets'' \<mapsto> ''yes'',
                              ''name'' \<mapsto> ''Central''],
              el_nodes = None \<rparr> ] \<rparr>) \<rparr>)
   = Inr [ \<lparr> id_str = ''7'', name = ''public toilet'',
             location = \<lparr> lat = 1.31, lng = 103.81 \<rparr>,
             address = Some ''address not available'', fee = Some False,
             wheelchair = Some False, diaper = Some False,
             housedIn = Some ''city mall'' \<rparr>,
           \<lparr> id_str = ''42'', name = ''central station toilet'',
             location = \<lparr> lat = 1.33, lng = 103.83 \<rparr>,
             address = Some ''address not available'', fee = Some False,
             wheelchair = Some False, diaper = Some False,
             housedIn = None \<rparr> ]"
  (is "findToilets (Resolved \<lparr> status = 200, body = Parsed (JObject \<lparr> data_elements = Some ?es \<rparr>) \<rparr>) = _")
proof -
  let ?d = "\<lparr> data_elements = Some ?es \<rparr>"
  let ?r = "\<lparr> status = 200, body = Parsed (JObject ?d) \<rparr>"
  have h1: "ok ?r" by (simp add: ok_def)
  have h2: "body ?r = Parsed (JObject ?d)" by simp
  have h3: "data_elements ?d = Some ?es" by simp
  show ?thesis
    using findToilets_selects_in_order [OF h1 h2 h3]
    by (simp add: parentNameMap_def is_named_way_def add_way_def set_if_absent_def
        tag_def toToilet_def addressParts_def displayName_def or_number_def
        List.map_filter_def truthy_eval string_eval)
qed

section \<open>The fields of a toilet record\<close>

subsection \<open>Display name\<close>

lemma displayName_cases:
  "displayName e
   = (if tag e ''railway'' = Some ''station''
      then (if truthy (tag e ''name'') then the (tag e ''name'') @ '' station toilet''
            else ''station toilet'')
      else if truthy (tag e ''name'') then the (tag e ''name'')
      else ''public toilet'')"
  by (simp add: displayName_def truthy_the not_truthy)

text \<open>
  Claim C4. The names of the returned records are, element by element over the selected
  elements: for \<^verbatim>\<open>railway=station\<close>, the name tag followed by \<^verbatim>\<open>" station toilet"\<close>
  when the element has a name tag, else \<^verbatim>\<open>"station toilet"\<close>; otherwise the name tag
  when the element has one, else \<^verbatim>\<open>"public toilet"\<close>; in each case lower-cased. The
  code tests the name tag by truthiness, so a name tag exists when it is present with a
  non-empty value (\<open>truthy\<close>).
\<close>

theorem findToilets_display_name:
  assumes "ok r" and "body r = Parsed (JObject d)" and "data_elements d = Some es"
  shows "\<exists>ts. findToilets (Resolved r) = Inr ts
          \<and> map name ts
              = map (\<lambda>e. toLowerCase
                         (if tag e ''railway'' = Some ''station''
                          then (if truthy (tag e ''name'')
                                then the (tag e ''name'') @ '' station toilet''
                                else ''station toilet'')
                          else if truthy (tag e ''name'') then the (tag e ''name'')
                          else ''public toilet''))
                  (filter isToiletElement es)"
  using findToilets_elements [OF assms]
  by (simp add: name_toToilet displayName_cases comp_def)

text \<open>
  The examples of the specification: \<^verbatim>\<open>amenity=toilets\<close> without a name; a station
  with toilets named Central; and beside them a station without a name and a named
  toilet.
\<close>

theorem findToilets_display_name_witness:
  "\<exists>ts. findToilets (Resolved
      \<lparr> status = 200, body = Parsed (JObject \<lparr> data_elements = Some
          [ \<lparr> el_id = 1, el_type = Node, el_lat = 1.31, el_lon = 103.81,
              el_center = None,
              el_tags = Some [''amenity'' \<mapsto> ''toilets''],
              el_nodes = None \<rparr>,
            \<lparr> el_id = 2, el_type = Node, el_lat = 1.32, el_lon = 103.82,
              el_center = None,
              el_tags = Some [''railway'' \<mapsto> ''station'', ''toilets'' \<mapsto> ''yes'',
                              ''name'' \<mapsto> ''Central''],
              el_nodes = None \<rparr>,
            \<lparr> el_id = 3, el_type = Node, el_lat = 1.33, el_lon = 103.83,
              el_center = None,
              el_tags = Some [''railway'' \<mapsto> ''station'', ''toilets'' \<mapsto> ''yes''],
              el_nodes = None \<rparr>,
            \<lparr> el_id = 4, el_type = Node, el_lat = 1.34, el_lon = 103.84,
              el_center = None,
              el_tags = Some [''amenity'' \<mapsto> ''toilets'', ''name'' \<mapsto> ''Lobby WC''],
              el_nodes = None \<rparr> ] \<rparr>) \<rparr>) = Inr ts
        \<and> map name ts
            = [''public toilet'', ''central station toilet'', ''station toilet'', ''lobby wc'']"
  (is "\<exists>ts. findToilets (Resolved \<lparr> status = 200, body = Parsed (JObject \<lparr> data_elements = Some ?es \<rparr>) \<rparr>) = _ \<and> _")
proof -
  let ?d = "\<lparr> data_elements = Some ?es \<rparr>"
  let ?r = "\<lparr> status = 200, body = Parsed (JObject ?d) \<rparr>"
  have h1: "ok ?r" by (simp add: ok_def)
  have h2: "body ?r = Parsed (JObject ?d)" by simp
  have h3: "data_elements ?d = Some ?es" by simp
  show ?thesis
    using findToilets_display_name [OF h1 h2 h3]
    by (simp add: isToiletElement_def tag_def truthy_eval string_eval)
qed

subsection \<open>Capability flags\<close>

text \<open>
  Claim C7. Over the selected elements, the fee-exempt flag of each record is true
  exactly when the fee tag is \<^verbatim>\<open>"no"\<close> or \<^verbatim>\<open>"0"\<close>, and the wheelchair and diaper
  flags are true exactly when the respective tag is \<^verbatim>\<open>"yes"\<close>; an absent tag and any
  other value give false.
\<close>

theorem findToilets_flags:
  assumes "ok r" and "body r = Parsed (JObject d)" and "data_elements d = Some es"
  shows "\<exists>ts. findToilets (Resolved r) = Inr ts
          \<and> map fee ts
              = map (\<lambda>e. Some (tag e ''fee'' = Some ''no'' \<or> tag e ''fee'' = Some ''0''))
                  (filter isToiletElement es)
          \<and> map wheelchair ts
              = map (\<lambda>e. Some (tag e ''wheelchair'' = Some ''yes''))
                  (filter isToiletElement es)
          \<and> map diaper ts
              = map (\<lambda>e. Some (tag e ''diaper'' = Some ''yes''))
                  (filter isToiletElement es)"
  using findToilets_elements [OF assms]
  by (simp add: flags_toToilet comp_def)

text \<open>
  Five toilets: fee \<^verbatim>\<open>"no"\<close>; fee \<^verbatim>\<open>"0"\<close>; fee \<^verbatim>\<open>"yes"\<close>; no flag tags at all;
  and the near misses \<^verbatim>\<open>"No"\<close>, \<^verbatim>\<open>"limited"\<close> and \<^verbatim>\<open>"Yes"\<close>.
\<close>

theorem findToilets_flags_witness:
  "\<exists>ts. findToilets (Resolved
      \<lparr> status = 200, body = Parsed (JObject \<lparr> data_elements = Some
          [ \<lparr> el_id = 1, el_type = Node, el_lat = 1.31, el_lon = 103.81,
              el_center = None,
              el_tags = Some [''amenity'' \<mapsto> ''toilets'', ''fee'' \<mapsto> ''no'',
                              ''wheelchair'' \<mapsto> ''yes''],
              el_nodes = None \<rparr>,
            \<lparr> el_id = 2, el_type = Node, el_lat = 1.32, el_lon = 103.82,
              el_center = None,
              el_tags = Some [''amenity'' \<mapsto> ''toilets'', ''fee'' \<mapsto> ''0'',
                              ''diaper'' \<mapsto> ''yes''],
              el_nodes = None \<rparr>,
            \<lparr> el_id = 3, el_type = Node, el_lat = 1.33, el_lon = 103.83,
              el_center = None,
              el_tags = Some [''amenity'' \<mapsto> ''toilets'', ''fee'' \<mapsto> ''yes''],
              el_nodes = None \<rparr>,
            \<lparr> el_id = 4, el_type = Node, el_lat = 1.34, el_lon = 103.84,
              el_center = None,
              el_tags = Some [''amenity'' \<mapsto> ''toilets''],
              el_nodes = None \<rparr>,
            \<lparr> el_id = 5, el_type = Node, el_lat = 1.35, el_lon = 103.85,
              el_center = None,
              el_tags = Some [''amenity'' \<mapsto> ''toilets'', ''fee'' \<mapsto> ''No'',
                              ''wheelchair'' \<mapsto> ''limited'', ''diaper'' \<mapsto> ''Yes''],
              el_nodes = None \<rparr> ] \<rparr>) \<rparr>) = Inr ts
        \<and> map fee ts = [Some True, Some True, Some False, Some False, Some False]
        \<and> map wheelchair ts = [Some True, Some False, Some False, Some False, Some False]
        \<and> map diaper ts = [Some False, Some True, Some False, Some False, Some False]"
  (is "\<exists>ts. findToilets (Resolved \<lparr> status = 200, body = Parsed (JObject \<lparr> data_elements = Some ?es \<rparr>) \<rparr>) = _ \<and> _")
proof -
  let ?d = "\<lparr> data_elements = Some ?es \<rparr>"
  let ?r = "\<lparr> status = 200, body = Parsed (JObject ?d) \<rparr>"
  have h1: "ok ?r" by (simp add: ok_def)
  have h2: "body ?r = Parsed (JObject ?d)" by simp
  have h3: "data_elements ?d = Some ?es" by simp
  show ?thesis
    using findToilets_flags [OF h1 h2 h3]
    by (simp add: isToiletElement_def tag_def)
qed

subsection \<open>Address\<close>

lemma addressParts_present:
  "addressParts e
   = concat (map (\<lambda>key. if truthy (tag e key) then [the (tag e key)] else [])
               [''addr:street'', ''addr:housenumber'', ''addr:postcode'', ''addr:city''])"
  by (simp add: addressParts_def List.map_filter_def truthy_the not_truthy)

text \<open>
  Claim C8. Over the selected elements, the address of each record is the values of
  the tags \<^verbatim>\<open>addr:street\<close>, \<^verbatim>\<open>addr:housenumber\<close>, \<^verbatim>\<open>addr:postcode\<close>, \<^verbatim>\<open>addr:city\<close>
  that are present, in that order, joined with \<^verbatim>\<open>", "\<close> and lower-cased, and
  \<^verbatim>\<open>"address not available"\<close> when none of the four is present. The code keeps a value
  by truthiness (\<^verbatim>\<open>.filter(Boolean)\<close>), so a tag is present when it has a non-empty
  value (\<open>truthy\<close>).
\<close>

theorem findToilets_address:
  assumes "ok r" and "body r = Parsed (JObject d)" and "data_elements d = Some es"
  shows "\<exists>ts. findToilets (Resolved r) = Inr ts
          \<and> map address ts
              = map (\<lambda>e. let present =
                              concat (map (\<lambda>key. if truthy (tag e key)
                                                 then [the (tag e key)] else [])
                                        [''addr:street'', ''addr:housenumber'',
                                         ''addr:postcode'', ''addr:city''])
                       in Some (toLowerCase (if present = [] then ''address not available''
                                             else join '', '' present)))
                  (filter isToiletElement es)"
  using findToilets_elements [OF assms]
  by (simp add: address_toToilet addressParts_present comp_def Let_def)

text \<open>
  All four tags; house number and city only; none of the four.
\<close>

theorem findToilets_address_witness:
  "\<exists>ts. findToilets (Resolved
      \<lparr> status = 200, body = Parsed (JObject \<lparr> data_elements = Some
          [ \<lparr> el_id = 1, el_type = Node, el_lat = 1.31, el_lon = 103.81,
              el_center = None,
              el_tags = Some [''amenity'' \<mapsto> ''toilets'', ''addr:city'' \<mapsto> ''Singapore'',
                              ''addr:postcode'' \<mapsto> ''123456'',
                              ''addr:housenumber'' \<mapsto> ''12'',
                              ''addr:street'' \<mapsto> ''Main St''],
              el_nodes = None \<rparr>,
            \<lparr> el_id = 2, el_type = Node, el_lat = 1.32, el_lon = 103.82,
              el_center = None,
              el_tags = Some [''amenity'' \<mapsto> ''toilets'', ''addr:housenumber'' \<mapsto> ''7B'',
                              ''addr:city'' \<mapsto> ''Johor Bahru''],
              el_nodes = None \<rparr>,
            \<lparr> el_id = 3, el_type = Node, el_lat = 1.33, el_lon = 103.83,
              el_center = None,
              el_tags = Some [''amenity'' \<mapsto> ''toilets'', ''name'' \<mapsto> ''Park WC''],
              el_nodes = None \<rparr> ] \<rparr>) \<rparr>) = Inr ts
        \<and> map address ts
            = [Some ''main st, 12, 123456, singapore'', Some ''7b, johor bahru'',
               Some ''address not available'']"
  (is "\<exists>ts. findToilets (Resolved \<lparr> status = 200, body = Parsed (JObject \<lparr> data_elements = Some ?es \<rparr>) \<rparr>) = _ \<and> _")
proof -
  let ?d = "\<lparr> data_elements = Some ?es \<rparr>"
  let ?r = "\<lparr> status = 200, body = Parsed (JObject ?d) \<rparr>"
  have h1: "ok ?r" by (simp add: ok_def)
  have h2: "body ?r = Parsed (JObject ?d)" by simp
  have h3: "data_elements ?d = Some ?es" by simp
  show ?thesis
    using findToilets_address [OF h1 h2 h3]
    by (simp add: isToiletElement_def tag_def truthy_eval string_eval)
qed

subsection \<open>Housed-in\<close>

text \<open>
  What \<^verbatim>\<open>parentNameMap\<close> holds after the two loops: a node id is mapped to the name of
  the first way of the reply, in reply order, that passed the \<^verbatim>\<open>ways\<close> filter and lists
  the id among its nodes.
\<close>

lemma foldl_set_if_absent:
  "foldl (set_if_absent nm) m ns k
   = (case m k of Some v \<Rightarrow> Some v | None \<Rightarrow> if k \<in> set ns then Some nm else None)"
  by (induction ns arbitrary: m) (auto simp: set_if_absent_def split: option.splits)

lemma add_way_lookup:
  assumes "is_named_way w"
  shows "add_way m w k
         = (case m k of
              Some v \<Rightarrow> Some v
            | None \<Rightarrow> if (case el_nodes w of Some ns \<Rightarrow> k \<in> set ns | None \<Rightarrow> False)
                      then tag w ''name'' else None)"
  using assms
  by (auto simp: add_way_def is_named_way_def truthy_def if_truthy_None foldl_set_if_absent
           split: option.splits)

lemma foldl_add_way_lookup:
  assumes "list_all is_named_way ws"
  shows "foldl add_way m ws k
         = (case m k of
              Some v \<Rightarrow> Some v
            | None \<Rightarrow>
                (case find (\<lambda>w. case el_nodes w of Some ns \<Rightarrow> k \<in> set ns | None \<Rightarrow> False) ws of
                   Some w \<Rightarrow> tag w ''name''
                 | None \<Rightarrow> None))"
  using assms
proof (induction ws arbitrary: m)
  case Nil
  then show ?case by (simp split: option.splits)
next
  case (Cons w ws)
  then have w: "is_named_way w" and ws: "list_all is_named_way ws" by simp_all
  have nm: "\<exists>n. tag w ''name'' = Some n"
    using w by (auto simp: is_named_way_def truthy_def if_truthy_def split: option.splits)
  show ?case
    using nm by (auto simp: Cons.IH [OF ws] add_way_lookup [OF w] split: option.splits)
qed

lemma find_filter: "find P (filter Q xs) = find (\<lambda>x. Q x \<and> P x) xs"
  by (induction xs) auto

lemma parentNameMap_lookup:
  "parentNameMap es k
   = (case find (\<lambda>w. is_named_way w
                     \<and> (case el_nodes w of Some ns \<Rightarrow> k \<in> set ns | None \<Rightarrow> False)) es of
        Some w \<Rightarrow> tag w ''name''
      | None \<Rightarrow> None)"
  by (simp add: parentNameMap_def foldl_add_way_lookup list_all_iff find_filter)

text \<open>
  Claim C5. Over the selected elements, \<^verbatim>\<open>housedIn\<close> of a record is absent unless the
  element is a node. For a node it is the lower-cased name of the first element of the
  reply, in reply order, that is a way with a name tag and a node list containing the
  node's id (\<open>find\<close> returns the first match), and absent when there is no such way. A
  way or relation never gets \<^verbatim>\<open>housedIn\<close>. The way's name tag is tested by truthiness
  (\<open>truthy\<close>: present and non-empty).
\<close>

theorem findToilets_housedIn:
  assumes "ok r" and "body r = Parsed (JObject d)" and "data_elements d = Some es"
  shows "\<exists>ts. findToilets (Resolved r) = Inr ts
          \<and> map housedIn ts
              = map (\<lambda>e. if el_type e = Node
                         then (case find (\<lambda>w. el_type w = Way \<and> truthy (tag w ''name'')
                                              \<and> (case el_nodes w of
                                                     Some ns \<Rightarrow> el_id e \<in> set ns
                                                   | None \<Rightarrow> False)) es of
                                 Some w \<Rightarrow> map_option toLowerCase (tag w ''name'')
                               | None \<Rightarrow> None)
                         else None)
                  (filter isToiletElement es)"
proof -
  have named: "\<And>k. (\<lambda>w. is_named_way w
                          \<and> (case el_nodes w of Some ns \<Rightarrow> k \<in> set ns | None \<Rightarrow> False))
                 = (\<lambda>w. el_type w = Way \<and> truthy (tag w ''name'')
                          \<and> (case el_nodes w of Some ns \<Rightarrow> k \<in> set ns | None \<Rightarrow> False))"
    by (rule ext) (auto simp: is_named_way_def split: option.splits)
  have field: "\<And>e. housedIn (toToilet (parentNameMap es) e)
                 = (if el_type e = Node
                    then (case find (\<lambda>w. el_type w = Way \<and> truthy (tag w ''name'')
                                         \<and> (case el_nodes w of
                                                Some ns \<Rightarrow> el_id e \<in> set ns
                                              | None \<Rightarrow> False)) es of
                            Some w \<Rightarrow> map_option toLowerCase (tag w ''name'')
                          | None \<Rightarrow> None)
                    else None)"
    by (simp add: housedIn_toToilet parentNameMap_lookup named split: option.splits)
  show ?thesis
    using findToilets_elements [OF assms] by (simp add: field comp_def)
qed

text \<open>
  Node 7 is listed by an unnamed way, then by the ways City Mall and Other Plaza: it
  is housed in the first named one. The toilet way 20 is listed by Other Plaza and gets
  nothing, being a way; node 30 is in no way.
\<close>

theorem findToilets_housedIn_witness:
  "\<exists>ts. findToilets (Resolved
      \<lparr> status = 200, body = Parsed (JObject \<lparr> data_elements = Some
          [ \<lparr> el_id = 9, el_type = Way, el_lat = 0, el_lon = 0,
              el_center = Some \<lparr> center_lat = 1.3, center_lon = 103.8 \<rparr>,
              el_tags = Some [''building'' \<mapsto> ''yes''],
              el_nodes = Some [7] \<rparr>,
            \<lparr> el_id = 10, el_type = Way, el_lat = 0, el_lon = 0,
              el_center = Some \<lparr> center_lat = 1.3, center_lon = 103.8 \<rparr>,
              el_tags = Some [''name'' \<mapsto> ''City Mall''],
              el_nodes = Some [7, 8] \<rparr>,
            \<lparr> el_id = 11, el_type = Way, el_lat = 0, el_lon = 0,
              el_center = Some \<lparr> center_lat = 1.3, center_lon = 103.8 \<rparr>,
              el_tags = Some [''name'' \<mapsto> ''Other Plaza''],
              el_nodes = Some [7, 20] \<rparr>,
            \<lparr> el_id = 7, el_type = Node, el_lat = 1.31, el_lon = 103.81,
              el_center = None,
              el_tags = Some [''amenity'' \<mapsto> ''toilets''],
              el_nodes = None \<rparr>,
            \<lparr> el_id = 20, el_type = Way, el_lat = 0, el_lon = 0,
              el_center = Some \<lparr> center_lat = 1.32, center_lon = 103.82 \<rparr>,
              el_tags = Some [''amenity'' \<mapsto> ''toilets''],
              el_nodes = Some [21, 22] \<rparr>,
            \<lparr> el_id = 30, el_type = Node, el_lat = 1.33, el_lon = 103.83,
              el_center = None,
              el_tags = Some [''amenity'' \<mapsto> ''toilets''],
              el_nodes = None \<rparr> ] \<rparr>) \<rparr>) = Inr ts
        \<and> map housedIn ts = [Some ''city mall'', None, None]"
  (is "\<exists>ts. findToilets (Resolved \<lparr> status = 200, body = Parsed (JObject \<lparr> data_elements = Some ?es \<rparr>) \<rparr>) = _ \<and> _")
proof -
  let ?d = "\<lparr> data_elements = Some ?es \<rparr>"
  let ?r = "\<lparr> status = 200, body = Parsed (JObject ?d) \<rparr>"
  have h1: "ok ?r" by (simp add: ok_def)
  have h2: "body ?r = Parsed (JObject ?d)" by simp
  have h3: "data_elements ?d = Some ?es" by simp
  show ?thesis
    using findToilets_housedIn [OF h1 h2 h3]
    by (simp add: isToiletElement_def tag_def truthy_eval string_eval)
qed

subsection \<open>Location\<close>

text \<open>
  Lines 79-82 on the whole result: the latitude is the centroid's latitude when the
  element has a centroid and that latitude is not zero, else the element's own latitude;
  the longitude likewise, each coordinate on its own.
\<close>

theorem findToilets_location:
  assumes "ok r" and "body r = Parsed (JObject d)" and "data_elements d = Some es"
  shows "\<exists>ts. findToilets (Resolved r) = Inr ts
          \<and> map location ts
              = map (\<lambda>e. case el_center e of
                           None \<Rightarrow> \<lparr> lat = el_lat e, lng = el_lon e \<rparr>
                         | Some c \<Rightarrow>
                             \<lparr> lat = (if center_lat c \<noteq> 0 then center_lat c else el_lat e),
                               lng = (if center_lon c \<noteq> 0 then center_lon c else el_lon e) \<rparr>)
                  (filter isToiletElement es)"
proof -
  have field: "\<And>e. location (toToilet (parentNameMap es) e)
                 = (case el_center e of
                      None \<Rightarrow> \<lparr> lat = el_lat e, lng = el_lon e \<rparr>
                    | Some c \<Rightarrow>
                        \<lparr> lat = (if center_lat c \<noteq> 0 then center_lat c else el_lat e),
                          lng = (if center_lon c \<noteq> 0 then center_lon c else el_lon e) \<rparr>)"
    by (simp add: location_toToilet or_number_def split: option.splits)
  show ?thesis
    using findToilets_elements [OF assms] by (simp add: field comp_def)
qed

text \<open>A way with a centroid off the axes, and a node without a centroid.\<close>

theorem findToilets_location_witness:
  "\<exists>ts. findToilets (Resolved
      \<lparr> status = 200, body = Parsed (JObject \<lparr> data_elements = Some
          [ \<lparr> el_id = 20, el_type = Way, el_lat = 5, el_lon = 6,
              el_center = Some \<lparr> center_lat = 1.32, center_lon = 103.82 \<rparr>,
              el_tags = Some [''amenity'' \<mapsto> ''toilets''],
              el_nodes = Some [21, 22] \<rparr>,
            \<lparr> el_id = 30, el_type = Node, el_lat = 1.33, el_lon = 103.83,
              el_center = None,
              el_tags = Some [''amenity'' \<mapsto> ''toilets''],
              el_nodes = None \<rparr> ] \<rparr>) \<rparr>) = Inr ts
        \<and> map location ts
            = [\<lparr> lat = 1.32, lng = 103.82 \<rparr>, \<lparr> lat = 1.33, lng = 103.83 \<rparr>]"
  (is "\<exists>ts. findToilets (Resolved \<lparr> status = 200, body = Parsed (JObject \<lparr> data_elements = Some ?es \<rparr>) \<rparr>) = _ \<and> _")
proof -
  let ?d = "\<lparr> data_elements = Some ?es \<rparr>"
  let ?r = "\<lparr> status = 200, body = Parsed (JObject ?d) \<rparr>"
  have h1: "ok ?r" by (simp add: ok_def)
  have h2: "body ?r = Parsed (JObject ?d)" by simp
  have h3: "data_elements ?d = Some ?es" by simp
  show ?thesis
    using findToilets_location [OF h1 h2 h3]
    by (simp add: isToiletElement_def tag_def)
qed

text \<open>
  Claim C9. The claim asks for the centroid whenever one is present, also at zero
  latitude or longitude. The code writes \<^verbatim>\<open>element.center?.lat || element.lat\<close>, and
  \<^verbatim>\<open>||\<close> takes a zero for an absent value. For a toilet way whose centroid lies on the
  equator, at latitude 0 and longitude 104, with the element's own coordinates 1 and 2,
  the record's location is latitude 1 (the element's own) and longitude 104 (the
  centroid's): not the centroid.
\<close>

theorem findToilets_zero_centroid:
  "findToilets (Resolved
      \<lparr> status = 200, body = Parsed (JObject \<lparr> data_elements = Some
          [ \<lparr> el_id = 20, el_type = Way, el_lat = 1, el_lon = 2,
              el_center = Some \<lparr> center_lat = 0, center_lon = 104 \<rparr>,
              el_tags = Some [''amenity'' \<mapsto> ''toilets''],
              el_nodes = None \<rparr> ] \<rparr>) \<rparr>)
   = Inr [ \<lparr> id_str = ''20'', name = ''public toilet'',
             location = \<lparr> lat = 1, lng = 104 \<rparr>,
             address = Some ''address not available'', fee = Some False,
             wheelchair = Some False, diaper = Some False,
             housedIn = None \<rparr> ]"
  by (simp add: findToilets_eval string_eval)

section \<open>Failure of the discovery\<close>

lemma findToilets_error_generic:
  "findToilets upstream = Inl x \<Longrightarrow> x = Error ''failed to find nearby toilets from openstreetmap.''"
  by (simp add: findToilets_def split: sum.splits)

text \<open>
  Claim C2, as the code has it. A transport failure, a response that is not ok and a
  body that does not parse as JSON each make \<^verbatim>\<open>findToilets\<close> throw an Error with the
  fixed message \<^verbatim>\<open>"failed to find nearby toilets from openstreetmap."\<close>, whatever the
  upstream detail (the rejection, the status, the parser's message); and any error
  \<^verbatim>\<open>findToilets\<close> throws is that one. A body that parses but has no element list
  (\<^verbatim>\<open>null\<close>, a non-object, an object without \<^verbatim>\<open>elements\<close>) is not a failure: the
  result is the empty list.
\<close>

theorem findToilets_fail_loud:
  "findToilets (Rejected e) = Inl (Error ''failed to find nearby toilets from openstreetmap.'')
   \<and> (\<not> ok r \<or> body r = Unparseable m
        \<longrightarrow> findToilets (Resolved r) = Inl (Error ''failed to find nearby toilets from openstreetmap.''))
   \<and> (\<forall>x. findToilets upstream = Inl x \<longrightarrow> x = Error ''failed to find nearby toilets from openstreetmap.'')
   \<and> (ok r \<and> (body r = Parsed JNull \<or> body r = Parsed JOther
               \<or> (\<exists>d. body r = Parsed (JObject d) \<and> data_elements d = None))
        \<longrightarrow> findToilets (Resolved r) = Inr [])"
proof -
  have rejected: "findToilets (Rejected e) = Inl (Error ''failed to find nearby toilets from openstreetmap.'')"
    by (simp add: findToilets_def findToilets_try_def)
  have failed: "\<not> ok r \<or> body r = Unparseable m
                \<longrightarrow> findToilets (Resolved r) = Inl (Error ''failed to find nearby toilets from openstreetmap.'')"
    by (auto simp: findToilets_def findToilets_try_def)
  have only: "\<forall>x. findToilets upstream = Inl x \<longrightarrow> x = Error ''failed to find nearby toilets from openstreetmap.''"
    using findToilets_error_generic by blast
  have empty: "ok r \<and> (body r = Parsed JNull \<or> body r = Parsed JOther
                        \<or> (\<exists>d. body r = Parsed (JObject d) \<and> data_elements d = None))
               \<longrightarrow> findToilets (Resolved r) = Inr []"
    by (auto simp: findToilets_def findToilets_try_def and_property_def)
  from rejected failed only empty show ?thesis by blast
qed

text \<open>
  A rejected fetch, a 500 response, a 200 response whose body is a web page, and a
  200 response whose body is \<^verbatim>\<open>null\<close>.
\<close>

theorem findToilets_fail_loud_witness:
  "findToilets (Rejected (TypeError ''Failed to fetch''))
     = Inl (Error ''failed to find nearby toilets from openstreetmap.'')
   \<and> findToilets (Resolved \<lparr> status = 500, body = Parsed (JObject \<lparr> data_elements = Some [] \<rparr>) \<rparr>)
     = Inl (Error ''failed to find nearby toilets from openstreetmap.'')
   \<and> findToilets (Resolved \<lparr> status = 200, body = Unparseable ''Unexpected token <'' \<rparr>)
     = Inl (Error ''failed to find nearby toilets from openstreetmap.'')
   \<and> findToilets (Resolved \<lparr> status = 200, body = Parsed JNull \<rparr>) = Inr []"
proof -
  let ?r500 = "\<lparr> status = 500, body = Parsed (JObject \<lparr> data_elements = Some [] \<rparr>) \<rparr>"
  let ?rhtml = "\<lparr> status = 200, body = Unparseable ''Unexpected token <'' \<rparr>
                :: overpass_data response"
  let ?rnull = "\<lparr> status = 200, body = Parsed JNull \<rparr> :: overpass_data response"
  have rejected: "findToilets (Rejected (TypeError ''Failed to fetch''))
                  = Inl (Error ''failed to find nearby toilets from openstreetmap.'')"
    by (rule findToilets_fail_loud [THEN conjunct1])
  have "\<not> ok ?r500"
    by (simp add: ok_def)
  then have status: "findToilets (Resolved ?r500)
                     = Inl (Error ''failed to find nearby toilets from openstreetmap.'')"
    using findToilets_fail_loud [where r = ?r500, THEN conjunct2, THEN conjunct1] by blast
  have "body ?rhtml = Unparseable ''Unexpected token <''"
    by simp
  then have html: "findToilets (Resolved ?rhtml)
                   = Inl (Error ''failed to find nearby toilets from openstreetmap.'')"
    using findToilets_fail_loud [where r = ?rhtml and m = "''Unexpected token <''",
        THEN conjunct2, THEN conjunct1]
    by blast
  have "ok ?rnull" and "body ?rnull = Parsed JNull"
    by (simp_all add: ok_def)
  then have null: "findToilets (Resolved ?rnull) = Inr []"
    using findToilets_fail_loud [where r = ?rnull,
        THEN conjunct2, THEN conjunct2, THEN conjunct2]
    by blast
  from rejected status html null show ?thesis
    by (intro conjI)
qed

text \<open>
  The message of the claim, \<^verbatim>\<open>"failed to find nearby toilets"\<close>, is not the message
  of the code: on a 500 response the error thrown carries the longer text.
\<close>

theorem findToilets_message_counterexample:
  "findToilets (Resolved \<lparr> status = 500, body = Unparseable ''Internal Server Error'' \<rparr>)
     = Inl (Error ''failed to find nearby toilets from openstreetmap.'')
   \<and> findToilets (Resolved \<lparr> status = 500, body = Unparseable ''Internal Server Error'' \<rparr>)
     \<noteq> Inl (Error ''failed to find nearby toilets'')"
  by (simp add: findToilets_def findToilets_try_def ok_def)

section \<open>Address resolution\<close>

subsection \<open>The ordered set of parts\<close>

lemma remdups_append_filter:
  "remdups (xs @ ys) = remdups (filter (\<lambda>x. x \<notin> set ys) xs) @ remdups ys"
  by (induction xs) auto

lemma distinct_set_add: "distinct s \<Longrightarrow> distinct (set_add s x)"
  by (simp add: set_add_def)

lemma foldl_set_add:
  "distinct acc \<Longrightarrow> foldl set_add acc xs = rev (remdups (rev (acc @ xs)))"
proof (induction xs arbitrary: acc)
  case Nil
  then show ?case by (simp add: distinct_remdups_id)
next
  case (Cons x xs)
  have "foldl set_add acc (x # xs) = rev (remdups (rev (set_add acc x @ xs)))"
    using Cons.IH [OF distinct_set_add [OF Cons.prems]] by simp
  also have "remdups (rev (set_add acc x @ xs)) = remdups (rev (acc @ x # xs))"
  proof (cases "x \<in> set acc")
    case True
    then have same: "(\<lambda>y. y \<notin> set (x # rev acc)) = (\<lambda>y. y \<notin> set (rev acc))"
      by auto
    have "remdups (rev xs @ rev acc) = remdups (rev xs @ x # rev acc)"
      unfolding remdups_append_filter [of "rev xs" "rev acc"]
        remdups_append_filter [of "rev xs" "x # rev acc"] same
      using True by simp
    with True show ?thesis by (simp add: set_add_def)
  next
    case False
    then show ?thesis by (simp add: set_add_def)
  qed
  finally show ?case .
qed

lemma unique_parts_remdups: "unique_parts xs = rev (remdups (rev xs))"
  using foldl_set_add [of "[]" xs] by (simp add: unique_parts_def)

lemma unique_parts_Cons:
  "unique_parts (x # xs) = x # unique_parts (filter (\<lambda>y. y \<noteq> x) xs)"
  by (simp add: unique_parts_remdups remdups_append_filter [of _ "[x]"] rev_filter)

lemma set_unique_parts: "set (unique_parts xs) = set xs"
  by (simp add: unique_parts_remdups)

lemma distinct_unique_parts: "distinct (unique_parts xs)"
  by (simp add: unique_parts_remdups)

lemma unique_parts_Nil_iff: "unique_parts xs = [] \<longleftrightarrow> xs = []"
  using set_unique_parts [of xs] by (metis set_empty)

subsection \<open>The structured address\<close>

lemma collect_parts_tokens:
  "collect_parts adr
   = concat (map (\<lambda>key. if truthy (adr key) then [the (adr key)] else [])
               [''house_number'', ''road'', ''suburb''])
     @ (if truthy (adr ''city'') \<and> toLowerCase (the (adr ''city'')) = ''singapore''
        then [if truthy (adr ''postcode'') then ''singapore '' @ the (adr ''postcode'')
              else ''singapore'']
        else concat (map (\<lambda>key. if truthy (adr key) then [the (adr key)] else [])
                       [''city'', ''postcode'']))"
  by (auto simp: collect_parts_def push_if_truthy_def city_is_singapore_def Let_def
        truthy_the not_truthy split: option.splits)

lemma reverseGeocode_structured:
  assumes "ok r" and "body r = Parsed (JObject d)" and "data_address d = Some adr"
    and "collect_parts adr \<noteq> []"
  shows "reverseGeocode (Resolved r)
         = Inr (toLowerCase (join '', '' (unique_parts (collect_parts adr))))"
  using assms
  by (simp add: reverseGeocode_def reverseGeocode_try_def structured_address_def
      and_property_def unique_parts_Nil_iff Let_def)

text \<open>
  Claim C6. When the reply has an address object, the tokens are: house number, road
  and suburb, each when present, in that order; then, when the city lower-cased is
  \<^verbatim>\<open>"singapore"\<close>, the one token \<^verbatim>\<open>"singapore <postcode>"\<close> (\<^verbatim>\<open>"singapore"\<close> alone without
  a postcode) in place of city and postcode; otherwise the city and then the postcode,
  each when present. When there is a token at all, the result is the tokens with
  repetitions removed, joined with \<^verbatim>\<open>", "\<close> and lower-cased. Removing repetitions
  (\<open>unique_parts\<close>) keeps the first occurrence of each token and the order: the result
  has no repetition, has the same tokens, and starts with the first token followed by
  the rest without that token, treated the same way. A field is present when it has a
  non-empty value (\<open>truthy\<close>, the test of the code).
\<close>

theorem reverseGeocode_structured_address:
  assumes "ok r" and "body r = Parsed (JObject d)" and "data_address d = Some adr"
    and "tokens
         = concat (map (\<lambda>key. if truthy (adr key) then [the (adr key)] else [])
                     [''house_number'', ''road'', ''suburb''])
           @ (if truthy (adr ''city'') \<and> toLowerCase (the (adr ''city'')) = ''singapore''
              then [if truthy (adr ''postcode'') then ''singapore '' @ the (adr ''postcode'')
                    else ''singapore'']
              else concat (map (\<lambda>key. if truthy (adr key) then [the (adr key)] else [])
                             [''city'', ''postcode'']))"
    and "tokens \<noteq> []"
  shows "reverseGeocode (Resolved r) = Inr (toLowerCase (join '', '' (unique_parts tokens)))
         \<and> distinct (unique_parts tokens)
         \<and> set (unique_parts tokens) = set tokens
         \<and> unique_parts [] = []
         \<and> (\<forall>x xs. unique_parts (x # xs) = x # unique_parts (filter (\<lambda>y. y \<noteq> x) xs))"
proof -
  have tokens: "tokens = collect_parts adr"
    using assms(4) by (simp only: collect_parts_tokens)
  have "reverseGeocode (Resolved r) = Inr (toLowerCase (join '', '' (unique_parts tokens)))"
    using assms(1-3,5) unfolding tokens by (rule reverseGeocode_structured)
  moreover have "unique_parts [] = []"
    by (simp add: unique_parts_def)
  ultimately show ?thesis
    by (simp add: distinct_unique_parts set_unique_parts unique_parts_Cons)
qed

text \<open>
  The example of the specification (house number 12, road Main St, postcode 123456,
  city Singapore), and a reply outside Singapore whose suburb repeats the road.
\<close>

theorem reverseGeocode_structured_address_witness:
  "reverseGeocode (Resolved
      \<lparr> status = 200, body = Parsed (JObject
          \<lparr> data_address = Some [''house_number'' \<mapsto> ''12'', ''road'' \<mapsto> ''Main St'',
                                 ''postcode'' \<mapsto> ''123456'', ''city'' \<mapsto> ''Singapore''],
            data_display_name = Some ''12, Main St, Singapore, 123456'',
            data_error = None \<rparr>) \<rparr>)
     = Inr ''12, main st, singapore 123456''
   \<and> reverseGeocode (Resolved
      \<lparr> status = 200, body = Parsed (JObject
          \<lparr> data_address = Some [''road'' \<mapsto> ''Jalan Besar'', ''suburb'' \<mapsto> ''Jalan Besar'',
                                 ''city'' \<mapsto> ''Johor Bahru'', ''postcode'' \<mapsto> ''80000''],
            data_display_name = None,
            data_error = None \<rparr>) \<rparr>)
     = Inr ''jalan besar, johor bahru, 80000''"
  (is "reverseGeocode (Resolved \<lparr> status = 200, body = Parsed (JObject ?d1) \<rparr>) = _
       \<and> reverseGeocode (Resolved \<lparr> status = 200, body = Parsed (JObject ?d2) \<rparr>) = _")
proof -
  let ?r1 = "\<lparr> status = 200, body = Parsed (JObject ?d1) \<rparr>"
  let ?r2 = "\<lparr> status = 200, body = Parsed (JObject ?d2) \<rparr>"
  have ok1: "ok ?r1" and ok2: "ok ?r2"
    by (simp_all add: ok_def)
  have first: "reverseGeocode (Resolved ?r1) = Inr ''12, main st, singapore 123456''"
    using reverseGeocode_structured_address
            [OF ok1, of ?d1 "the (data_address ?d1)", OF _ _ refl]
    by (simp add: truthy_eval string_eval unique_parts_def set_add_def)
  have second: "reverseGeocode (Resolved ?r2) = Inr ''jalan besar, johor bahru, 80000''"
    using reverseGeocode_structured_address
            [OF ok2, of ?d2 "the (data_address ?d2)", OF _ _ refl]
    by (simp add: truthy_eval string_eval unique_parts_def set_add_def)
  from first second show ?thesis by (intro conjI)
qed

subsection \<open>Totality and the order of the fallbacks\<close>

text \<open>
  What \<^verbatim>\<open>reverseGeocode\<close> returns, for every outcome of the request: always a string,
  never an error. A rejected fetch, a response that is not ok and a body that is not
  JSON give \<^verbatim>\<open>"unknown location (network error)"\<close>. On a parsed object the tiers are
  tried in this order: the structured address when it has at least one part; else the
  display name, lower-cased, when present; else \<^verbatim>\<open>"location lookup failed: "\<close> followed
  by the upstream error, lower-cased, when present; else \<^verbatim>\<open>"could not determine
  address"\<close>. A parsed value that is neither \<^verbatim>\<open>null\<close> nor an object also gives
  \<^verbatim>\<open>"could not determine address"\<close>; a parsed \<^verbatim>\<open>null\<close> gives the network-error string.
  A field is present when it has a non-empty value (\<open>truthy\<close>, the test of the code).
\<close>

lemma reverseGeocode_outcomes:
  "reverseGeocode upstream
   = Inr (case upstream of
            Rejected e \<Rightarrow> ''unknown location (network error)''
          | Resolved r \<Rightarrow>
              if \<not> ok r then ''unknown location (network error)''
              else
                (case body r of
                   Unparseable m \<Rightarrow> ''unknown location (network error)''
                 | Parsed JNull \<Rightarrow> ''unknown location (network error)''
                 | Parsed JOther \<Rightarrow> ''could not determine address''
                 | Parsed (JObject d) \<Rightarrow>
                     if data_address d \<noteq> None \<and> collect_parts (the (data_address d)) \<noteq> []
                     then toLowerCase
                            (join '', '' (unique_parts (collect_parts (the (data_address d)))))
                     else if truthy (data_display_name d)
                     then toLowerCase (the (data_display_name d))
                     else if truthy (data_error d)
                     then toLowerCase (''location lookup failed: '' @ the (data_error d))
                     else ''could not determine address''))"
  by (auto simp: reverseGeocode_def reverseGeocode_try_def structured_address_def
        fallbacks_def and_property_def get_property_def unique_parts_Nil_iff Let_def
        truthy_the not_truthy if_truthy_Some
      split: fetch_outcome.splits body.splits json.splits option.splits sum.splits)

text \<open>
  One reply per tier: a rejected fetch; a 500 response; a body that is not JSON; an
  address with a road beside a display name and an error; an empty address beside a
  display name and an error; an error alone; an empty object.
\<close>

lemma reverseGeocode_outcomes_examples:
  "reverseGeocode (Rejected (TypeError ''Failed to fetch''))
     = Inr ''unknown location (network error)''
   \<and> reverseGeocode (Resolved
        \<lparr> status = 500,
          body = Parsed (JObject \<lparr> data_address = None,
                                   data_display_name = Some ''Somewhere'',
                                   data_error = None \<rparr>) \<rparr>)
     = Inr ''unknown location (network error)''
   \<and> reverseGeocode (Resolved \<lparr> status = 200, body = Unparseable ''Unexpected token <'' \<rparr>)
     = Inr ''unknown location (network error)''
   \<and> reverseGeocode (Resolved
        \<lparr> status = 200,
          body = Parsed (JObject \<lparr> data_address = Some [''road'' \<mapsto> ''Main St''],
                                   data_display_name = Some ''Main St, Singapore'',
                                   data_error = Some ''Unable to geocode'' \<rparr>) \<rparr>)
     = Inr ''main st''
   \<and> reverseGeocode (Resolved
        \<lparr> status = 200,
          body = Parsed (JObject \<lparr> data_address = Some Map.empty,
                                   data_display_name = Some ''Main St, Singapore'',
                                   data_error = Some ''Unable to geocode'' \<rparr>) \<rparr>)
     = Inr ''main st, singapore''
   \<and> reverseGeocode (Resolved
        \<lparr> status = 200,
          body = Parsed (JObject \<lparr> data_address = None,
                                   data_display_name = None,
                                   data_error = Some ''Unable to geocode'' \<rparr>) \<rparr>)
     = Inr ''location lookup failed: unable to geocode''
   \<and> reverseGeocode (Resolved
        \<lparr> status = 200,
          body = Parsed (JObject \<lparr> data_address = None,
                                   data_display_name = None,
                                   data_error = None \<rparr>) \<rparr>)
     = Inr ''could not determine address''"
  by (simp add: reverseGeocode_outcomes ok_def collect_parts_def push_if_truthy_def
      city_is_singapore_def unique_parts_def set_add_def truthy_eval string_eval)

subsection \<open>The tiers on a reply without data\<close>

text \<open>
  Claim C3. The claim has \<^verbatim>\<open>reverseGeocode\<close> return a string for every upstream
  behaviour, chosen through the tiers in order (structured address, display name,
  upstream error, then \<^verbatim>\<open>"could not determine address"\<close>), with the network-error
  string for network and status failures. The code does so except on a successful
  response whose body parses to \<^verbatim>\<open>null\<close>. Line 140 guards the parsed value
  (\<^verbatim>\<open>data && data.address\<close>), line 165 reads \<^verbatim>\<open>data.display_name\<close> without the guard:
  on \<^verbatim>\<open>null\<close> the read throws a TypeError inside the \<^verbatim>\<open>try\<close> block and the \<^verbatim>\<open>catch\<close>
  block returns the network-error string, so the reply never reaches the last tier.
  The empty object, a reply just as void of data, at the same status does reach it.
\<close>

theorem reverseGeocode_null_skips_tiers:
  "(\<exists>msg. reverseGeocode_try (Resolved \<lparr> status = 200, body = Parsed JNull \<rparr>)
           = Inl (TypeError msg))
   \<and> reverseGeocode (Resolved \<lparr> status = 200, body = Parsed JNull \<rparr>)
       = Inr ''unknown location (network error)''
   \<and> reverseGeocode (Resolved \<lparr> status = 200, body = Parsed JNull \<rparr>)
       \<noteq> Inr ''could not determine address''
   \<and> reverseGeocode (Resolved
         \<lparr> status = 200,
           body = Parsed (JObject \<lparr> data_address = None, data_display_name = None,
                                    data_error = None \<rparr>) \<rparr>)
       = Inr ''could not determine address''"
  by (simp add: reverseGeocode_def reverseGeocode_try_def ok_def structured_address_def
      fallbacks_def and_property_def get_property_def if_truthy_def)

subsection \<open>A null body\<close>

text \<open>
  Claim C10. When the response is ok and its body parses to \<^verbatim>\<open>null\<close>, the guarded
  test \<^verbatim>\<open>data && data.address\<close> is skipped, reading \<^verbatim>\<open>data.display_name\<close> throws a
  TypeError inside the \<^verbatim>\<open>try\<close> block, and the \<^verbatim>\<open>catch\<close> block turns it into
  \<^verbatim>\<open>"unknown location (network error)"\<close>: the result is not \<^verbatim>\<open>"could not determine
  address"\<close>.
\<close>

theorem reverseGeocode_null_body:
  assumes "ok r" and "body r = Parsed JNull"
  shows "(\<exists>msg. reverseGeocode_try (Resolved r) = Inl (TypeError msg))
         \<and> reverseGeocode (Resolved r) = Inr ''unknown location (network error)''
         \<and> reverseGeocode (Resolved r) \<noteq> Inr ''could not determine address''"
  using assms
  by (simp add: reverseGeocode_def reverseGeocode_try_def structured_address_def
      fallbacks_def and_property_def get_property_def)

theorem reverseGeocode_null_body_witness:
  "reverseGeocode (Resolved \<lparr> status = 200, body = Parsed JNull \<rparr>)
   = Inr ''unknown location (network error)''"
proof -
  let ?r = "\<lparr> status = 200, body = Parsed JNull \<rparr> :: nominatim_data response"
  have h1: "ok ?r" by (simp add: ok_def)
  have h2: "body ?r = Parsed JNull" by simp
  show ?thesis
    using reverseGeocode_null_body [OF h1 h2] by blast
qed

end
